theory Spec2Isabelle
  imports Complex_Main
begin

section \<open>Sentence embeddings with Siamese RoBERTa networks\<close>

text \<open>
  The notebook \<^verbatim>\<open>examples/nlp/ipynb/sentence_embeddings_with_sbert.ipynb\<close> fine-tunes a
  sentence encoder in two Siamese set-ups: a regression objective on sentence pairs and a
  triplet objective on (anchor, positive, negative) triples.

  Tensors are modelled as nested lists: a rank-1 tensor is a list of numbers, a rank-2
  tensor a list of rows. A nested list stands for a tensor only when it is rectangular;
  where a property depends on the shapes, the shapes that the framework guarantees are
  hypotheses of the theorem. The floating-point numbers of the framework are modelled as real
  numbers, so rounding, overflow and the propagation of infinities are not part of the
  model. The one non-finite outcome that the modelled code can produce from finite
  inputs, the quotient \<open>0 / 0\<close> of a mean over an empty batch or of the normalisation of
  the zero vector, is written out as the failure \<open>NotANumber\<close>.
\<close>

subsection \<open>Failures\<close>

text \<open>
  \<open>ValueError\<close> is the exception of Python and of the framework on a value of the wrong
  shape, \<open>NotANumber\<close> the quotient \<open>0 / 0\<close>, and \<open>Rejected\<close> the refusal of a sentence
  without a non-padded token by the pooling layer.
\<close>

datatype failure = ValueError | NotANumber | Rejected

subsection \<open>Tensor operations of the framework\<close>

text \<open>
  The operations of TensorFlow that the notebook calls are library code outside the
  sources. Each is modelled by its documented meaning, at the ranks at which the notebook
  uses it.
\<close>

text \<open>\<^verbatim>\<open>tf.cast(mask, dtype)\<close> on a boolean: true is 1, false is 0.\<close>

definition cast :: "bool \<Rightarrow> real" where
  "cast b = (if b then 1 else 0)"

text \<open>\<^verbatim>\<open>tf.nn.relu\<close>, elementwise \<open>max(x, 0)\<close>.\<close>

definition relu :: "real \<Rightarrow> real" where
  "relu x = max x 0"

text \<open>
  \<^verbatim>\<open>tf.math.reduce_mean(t, axis=0)\<close> on a rank-1 tensor: the sum divided by the number of
  entries. On an empty tensor the quotient is \<open>0 / 0\<close>.
\<close>

definition reduce_mean :: "real list \<Rightarrow> failure + real" where
  "reduce_mean t = (if t = [] then Inl NotANumber else Inr (sum_list t / real (length t)))"

text \<open>\<^verbatim>\<open>tf.math.reduce_sum(t, axis=1)\<close> on a rank-2 tensor: one sum per row.\<close>

definition reduce_sum :: "real list list \<Rightarrow> real list" where
  "reduce_sum t = map sum_list t"

text \<open>\<^verbatim>\<open>tf.math.pow(t, 2)\<close> on a rank-2 tensor, elementwise.\<close>

definition pow :: "real list list \<Rightarrow> nat \<Rightarrow> real list list" where
  "pow t k = map (map (\<lambda>x. x ^ k)) t"

text \<open>The elementwise difference \<^verbatim>\<open>a - b\<close> of two rank-2 tensors of one shape.\<close>

definition subtract :: "real list list \<Rightarrow> real list list \<Rightarrow> real list list" where
  "subtract a b = map2 (map2 (-)) a b"

text \<open>
  \<^verbatim>\<open>p, n = tf.unstack(y, axis=0)\<close>: the rows of a tensor, unpacked into two names. Python
  raises \<^verbatim>\<open>ValueError\<close> when the number of rows is not two.
\<close>

fun unstack :: "'a list \<Rightarrow> failure + ('a \<times> 'a)" where
  "unstack [p, n] = Inr (p, n)"
| "unstack _ = Inl ValueError"

text \<open>The inner product of two rank-1 tensors, the entry of a matrix product.\<close>

definition dot :: "real list \<Rightarrow> real list \<Rightarrow> real" where
  "dot a b = sum_list (map2 (*) a b)"

text \<open>
  \<^verbatim>\<open>tf.matmul(a, b)\<close> on rank-2 tensors: entry \<open>(i, j)\<close> is the inner product of row \<open>i\<close>
  of \<open>a\<close> and column \<open>j\<close> of \<open>b\<close>. \<^verbatim>\<open>tf.transpose\<close> on a rank-2 tensor is
  \<^const>\<open>transpose\<close>.
\<close>

definition matmul :: "real list list \<Rightarrow> real list list \<Rightarrow> real list list" where
  "matmul a b = map (\<lambda>row. map (\<lambda>col. dot row col) (transpose b)) a"

text \<open>
  \<^verbatim>\<open>tf.split(inputs, num_or_size_splits=2, axis=1)\<close> on a tensor of shape \<open>(B, 2)\<close>: the
  first column and the second column.
\<close>

definition split :: "('s \<times> 's) list \<Rightarrow> 's list \<times> 's list" where
  "split inputs = (map fst inputs, map snd inputs)"

subsection \<open>Label rescaling\<close>

definition change_range :: "real \<Rightarrow> real" where
  "change_range x = (x / 2.5) - 1"

subsection \<open>The encoder: mean pooling and normalisation\<close>

text \<open>
  Modelled from the spec: the body of \<^verbatim>\<open>keras.layers.GlobalAveragePooling1D\<close>, which the
  notebook names \<^verbatim>\<open>pooling_layer\<close> and calls with the hidden states and the padding mask,
  is library code that is not part of the sources. The spec says it averages the hidden
  states over the positions where the mask is true, and that a sentence with zero
  non-padded tokens must be rejected or guarded against, because of the division by
  zero. The model follows both sentences: the mask is cast to 0 and 1, every token vector
  is multiplied by its mask entry, the products are summed over the sequence axis, and
  the sum is divided by the sum of the mask; when the sum of the mask is 0 the sentence
  is rejected and nothing is divided. The notebook adds no check of its own: it passes
  the mask of the preprocessor to the layer as it is.
\<close>

definition pooling_layer :: "real list list \<Rightarrow> bool list \<Rightarrow> failure + real list" where
  "pooling_layer inputs msk =
     (let m = map cast msk;
          masked = map2 (\<lambda>row mi. map (\<lambda>x. x * mi) row) inputs m;
          total = sum_list m
      in if total = 0 then Inl Rejected
         else Inr (map (\<lambda>col. sum_list col / total) (transpose masked)))"

text \<open>The Euclidean norm of a rank-1 tensor.\<close>

definition l2_norm :: "real list \<Rightarrow> real" where
  "l2_norm x = sqrt (sum_list (map (\<lambda>xi. xi * xi) x))"

text \<open>
  Modelled from the spec: \<^verbatim>\<open>tf.linalg.normalize(embedding, axis=1)[0]\<close> is library code
  that is not part of the sources. The spec says it L2-normalises the vector so that its
  magnitude is 1. The model divides every entry of a row by the Euclidean norm of the
  row; for the zero vector the quotient is \<open>0 / 0\<close>.
\<close>

definition linalg_normalize :: "real list \<Rightarrow> failure + real list" where
  "linalg_normalize x =
     (let n = l2_norm x in if n = 0 then Inl NotANumber else Inr (map (\<lambda>xi. xi / n) x))"

text \<open>
  The output of the preprocessor: the token ids and the padding mask of one sentence. The
  preprocessor and the backbone are pretrained models; they are parameters here.
\<close>

record 'tok preprocessed =
  token_ids :: "'tok list"
  padding_mask :: "bool list"

definition roberta_encoder ::
  "('s \<Rightarrow> 'tok preprocessed) \<Rightarrow> ('tok preprocessed \<Rightarrow> real list list) \<Rightarrow> 's \<Rightarrow> failure + real list" where
  "roberta_encoder preprocessor backbone sentence =
     (let x = preprocessor sentence;
          h = backbone x
      in pooling_layer h (padding_mask x))"

definition roberta_normal_encoder ::
  "('s \<Rightarrow> 'tok preprocessed) \<Rightarrow> ('tok preprocessed \<Rightarrow> real list list) \<Rightarrow> 's \<Rightarrow> failure + real list" where
  "roberta_normal_encoder preprocessor backbone sentence =
     (let x = preprocessor sentence;
          h = backbone x
      in case pooling_layer h (padding_mask x) of
           Inl e \<Rightarrow> Inl e
         | Inr embedding \<Rightarrow> linalg_normalize embedding)"

subsection \<open>The Siamese network with the regression objective\<close>

text \<open>
  The encoder is a constructor argument of the model; it maps a batch of sentences to a
  batch of embeddings, one row per sentence. Here it is a function of the batch alone, as
  a Keras model is at inference.
\<close>

definition RegressionSiamese ::
  "('s list \<Rightarrow> real list list) \<Rightarrow> ('s \<times> 's) list \<Rightarrow> real list list" where
  "RegressionSiamese encoder inputs =
     (let (sen1, sen2) = split inputs;
          u = encoder sen1;
          v = encoder sen2;
          cosine_similarity_scores = matmul u (transpose v)
      in cosine_similarity_scores)"

subsection \<open>The Siamese network with the triplet objective\<close>

text \<open>
  The encoder is a constructor argument of the model, and the model calls it three
  times, once for each input. A Keras model that is run in training mode, as \<^verbatim>\<open>fit\<close> runs
  it, need not compute the same function in every call: a dropout layer draws a new
  random mask each time. The encoder therefore takes the random draw of the call as its
  first argument, and \<open>draws\<close> holds the draws of the three calls of one forward pass. An
  encoder without randomness, or one run at inference, ignores the draw.
\<close>

definition TripletSiamese ::
  "('d \<Rightarrow> 's list \<Rightarrow> real list list) \<Rightarrow> 'd \<times> 'd \<times> 'd \<Rightarrow> 's list \<Rightarrow> 's list \<Rightarrow> 's list
     \<Rightarrow> real list list" where
  "TripletSiamese encoder draws anchor positive negative =
     (let (da, dp, dn) = draws;
          ea = encoder da anchor;
          ep = encoder dp positive;
          en = encoder dn negative;
          positive_dist = reduce_sum (pow (subtract ea ep) 2);
          negative_dist = reduce_sum (pow (subtract ea en) 2);
          positive_dist = map sqrt positive_dist;
          negative_dist = map sqrt negative_dist
      in [positive_dist, negative_dist])"

record TripletLoss =
  margin :: real

text \<open>The constructor: \<^verbatim>\<open>margin=1\<close> is the default of the keyword argument.\<close>

definition TripletLoss_init :: "real option \<Rightarrow> TripletLoss" where
  "TripletLoss_init m = \<lparr>margin = (case m of None \<Rightarrow> 1 | Some x \<Rightarrow> x)\<rparr>"

text \<open>The local \<^verbatim>\<open>losses\<close> of \<^verbatim>\<open>TripletLoss.call\<close>: one loss per example of the batch.\<close>

definition TripletLoss_losses :: "TripletLoss \<Rightarrow> real list list \<Rightarrow> failure + real list" where
  "TripletLoss_losses self y_pred =
     (case unstack y_pred of
        Inl e \<Rightarrow> Inl e
      | Inr (positive_dist, negative_dist) \<Rightarrow>
          Inr (map relu (map (\<lambda>d. d + margin self) (map2 (-) positive_dist negative_dist))))"

definition TripletLoss_call :: "TripletLoss \<Rightarrow> 'y \<Rightarrow> real list list \<Rightarrow> failure + real" where
  "TripletLoss_call self y_true y_pred =
     (case TripletLoss_losses self y_pred of
        Inl e \<Rightarrow> Inl e
      | Inr losses \<Rightarrow> reduce_mean losses)"

subsection \<open>An encoder with dropout\<close>

text \<open>
  An example of an encoder whose output depends on the draw of the call, the way the
  output of a dropout layer does in training: a sentence is given by its vector, the draw
  says which entries are kept, and a dropped entry is 0. It is an input for the examples
  below, not a part of the notebook.
\<close>

definition dropout_encoder :: "bool list \<Rightarrow> real list list \<Rightarrow> real list list" where
  "dropout_encoder draw sentences =
     map (\<lambda>v. map2 (\<lambda>x keep. x * cast keep) v draw) sentences"

subsection \<open>The triplet dataset\<close>

record wiki_row =
  Sentence1 :: string
  Sentence2 :: string
  Sentence3 :: string

text \<open>
  \<^verbatim>\<open>dataset.batch(batch_size)\<close>: consecutive groups of \<open>batch_size\<close> elements, the last group
  shorter when the elements run out. The framework rejects a batch size of 0.
\<close>

function chunks :: "nat \<Rightarrow> 'a list \<Rightarrow> 'a list list" where
  "chunks n xs = (if n = 0 \<or> xs = [] then [] else take n xs # chunks n (drop n xs))"
  by pat_completeness auto
termination
  by (relation "measure (\<lambda>(n, xs). length xs)") auto

definition batch :: "nat \<Rightarrow> 'a list \<Rightarrow> failure + 'a list list" where
  "batch batch_size dataset =
     (if batch_size = 0 then Inl ValueError else Inr (chunks batch_size dataset))"

text \<open>
  \<^verbatim>\<open>prepare_wiki_data\<close>: every row becomes the triple of its sentences with the label 0;
  the examples are batched by 6 and the first \<open>num_batchs\<close> batches are kept
  (\<^verbatim>\<open>prefetch\<close> does not change the elements).
\<close>

definition prepare_wiki_data ::
  "wiki_row list \<Rightarrow> nat \<Rightarrow> failure + ((string \<times> string \<times> string) \<times> int) list list" where
  "prepare_wiki_data dataset num_batchs =
     (let dataset = map (\<lambda>z. ((Sentence1 z, Sentence2 z, Sentence3 z), 0)) dataset
      in case batch 6 dataset of
           Inl e \<Rightarrow> Inl e
         | Inr dataset \<Rightarrow> Inr (take num_batchs dataset))"

subsection \<open>The arithmetic mean of the unpadded token vectors\<close>

text \<open>
  The reference the pooling layer is compared with, in the words of the specification:
  the token vectors at the positions where the mask is true, and the arithmetic mean of
  a list of vectors of one dimension (componentwise, the sum divided by their number).
\<close>

definition unpadded :: "real list list \<Rightarrow> bool list \<Rightarrow> real list list" where
  "unpadded inputs msk = map fst (filter snd (zip inputs msk))"

definition arithmetic_mean :: "real list list \<Rightarrow> real list" where
  "arithmetic_mean vs =
     (case vs of
        [] \<Rightarrow> []
      | v # _ \<Rightarrow> map (\<lambda>j. sum_list (map (\<lambda>w. w ! j) vs) / real (length vs)) [0..<length v])"

section \<open>Properties\<close>

subsection \<open>Helper lemmas\<close>

lemma upt_two: "[0..<2] = [0, 1]"
  by code_simp

lemma dist_rows:
  "map sqrt (reduce_sum (pow (subtract a b) 2)) = map2 (\<lambda>x y. l2_norm (map2 (-) x y)) a b"
  by (auto simp: reduce_sum_def pow_def subtract_def l2_norm_def power2_eq_square comp_def)

lemma TripletSiamese_rows:
  "TripletSiamese encoder (da, dp, dn) anchor positive negative =
     [map2 (\<lambda>x y. l2_norm (map2 (-) x y)) (encoder da anchor) (encoder dp positive),
      map2 (\<lambda>x y. l2_norm (map2 (-) x y)) (encoder da anchor) (encoder dn negative)]"
  by (simp add: TripletSiamese_def Let_def dist_rows)

lemma sqrt_25: "sqrt 25 = 5"
  using real_sqrt_abs2[of 5] by simp

lemma l2_norm_self: "l2_norm (map2 (-) a a) = 0"
  by (simp add: l2_norm_def zip_same_conv_map comp_def)

lemma set_chunks: "ys \<in> set (chunks n xs) \<Longrightarrow> set ys \<subseteq> set xs"
proof (induction n xs rule: chunks.induct)
  case (1 n xs)
  show ?case
  proof (cases "n = 0 \<or> xs = []")
    case True
    with "1.prems" show ?thesis by simp
  next
    case False
    with "1.prems" have "ys = take n xs \<or> ys \<in> set (chunks n (drop n xs))"
      by (simp del: chunks.simps add: chunks.simps[of n xs])
    then show ?thesis
    proof
      assume "ys = take n xs"
      then show ?thesis by (auto dest: in_set_takeD)
    next
      assume "ys \<in> set (chunks n (drop n xs))"
      with "1.IH" False have "set ys \<subseteq> set (drop n xs)" by blast
      then show ?thesis by (auto dest: in_set_dropD)
    qed
  qed
qed

subsection \<open>Label rescaling\<close>

text \<open>
  C7. For every label \<open>x\<close> the rescaling returns \<open>x / 2.5 - 1\<close>; it maps 0 to -1, 2.5 to 0
  and 5 to 1, and it maps the interval \<open>[0, 5]\<close> onto the interval \<open>[-1, 1]\<close>.
\<close>

theorem change_range_rescales:
  "change_range x = x / 2.5 - 1 \<and> change_range 0 = -1 \<and> change_range 2.5 = 0
   \<and> change_range 5 = 1 \<and> change_range ` {0..5} = {-1..1}"
proof -
  have img: "change_range ` {0..5} = {-1..1}"
  proof (rule set_eqI, rule iffI)
    fix y assume "y \<in> change_range ` {0..5}"
    then obtain x where "0 \<le> x" "x \<le> 5" "y = change_range x" by auto
    then show "y \<in> {-1..1}" by (simp add: change_range_def)
  next
    fix y :: real assume y: "y \<in> {-1..1}"
    have "change_range (2.5 * (y + 1)) = y" by (simp add: change_range_def field_simps)
    moreover have "2.5 * (y + 1) \<in> {0..5}" using y by simp
    ultimately show "y \<in> change_range ` {0..5}" by (metis imageI)
  qed
  show ?thesis using img by (simp add: change_range_def)
qed

subsection \<open>The triplet loss\<close>

text \<open>
  C5, as the code has it. For a prediction of two rows of equal length, the loss of
  example \<open>i\<close> is \<open>max(d_pos - d_neg + margin, 0)\<close>. It is 0 when
  \<open>d_pos < d_neg - margin\<close>; when \<open>d_pos = d_neg\<close> it is \<open>max(margin, 0)\<close>, which is the
  margin itself for every margin that is not negative; it is never negative.
\<close>

theorem triplet_loss_per_example:
  assumes "length positive_dist = length negative_dist" and "i < length positive_dist"
  shows "\<exists>losses. TripletLoss_losses self [positive_dist, negative_dist] = Inr losses
     \<and> length losses = length positive_dist
     \<and> losses ! i = max (positive_dist ! i - negative_dist ! i + margin self) 0
     \<and> (positive_dist ! i < negative_dist ! i - margin self \<longrightarrow> losses ! i = 0)
     \<and> (positive_dist ! i = negative_dist ! i \<longrightarrow> losses ! i = max (margin self) 0)
     \<and> (positive_dist ! i = negative_dist ! i \<and> 0 \<le> margin self \<longrightarrow> losses ! i = margin self)
     \<and> 0 \<le> losses ! i"
  using assms by (auto simp: TripletLoss_losses_def relu_def)

theorem triplet_loss_per_example_witness:
  "length [1::real, 5] = length [3::real, 5] \<and> 1 < length [1::real, 5]
   \<and> TripletLoss_losses (TripletLoss_init None) [[1, 5], [3, 5]] = Inr [0, 1]"
  using triplet_loss_per_example [of "[1, 5]" "[3, 5]" 1 "TripletLoss_init None"]
  by (simp add: TripletLoss_losses_def TripletLoss_init_def relu_def)

text \<open>
  C5 as written fails for a negative margin: with margin -1 and equal distances the loss
  is 0, not the margin.
\<close>

theorem triplet_loss_negative_margin:
  "[2::real] ! 0 = [2] ! 0
   \<and> TripletLoss_losses (TripletLoss_init (Some (- 1))) [[2], [2]] = Inr [0]
   \<and> margin (TripletLoss_init (Some (- 1))) = - 1"
  by (simp add: TripletLoss_losses_def TripletLoss_init_def relu_def)

text \<open>
  C10. The result of \<^verbatim>\<open>TripletLoss.call\<close> is the same for any two label tensors, and the
  labels that the dataset preparation attaches to the triplets are all 0.
\<close>

theorem triplet_loss_ignores_y_true:
  "TripletLoss_call self y1 y_pred = TripletLoss_call self y2 y_pred
   \<and> (\<exists>batches. prepare_wiki_data dataset num_batchs = Inr batches
        \<and> list_all (list_all (\<lambda>example. snd example = 0)) batches)"
proof -
  let ?d = "map (\<lambda>z. ((Sentence1 z, Sentence2 z, Sentence3 z), 0::int)) dataset"
  have prep: "prepare_wiki_data dataset num_batchs = Inr (take num_batchs (chunks 6 ?d))"
    by (simp add: prepare_wiki_data_def batch_def del: chunks.simps)
  have "snd example = 0" if "b \<in> set (take num_batchs (chunks 6 ?d))" "example \<in> set b"
    for b example
  proof -
    from that(1) have "b \<in> set (chunks 6 ?d)" by (rule in_set_takeD)
    then have "set b \<subseteq> set ?d" by (rule set_chunks)
    with that(2) show ?thesis by auto
  qed
  then have "list_all (list_all (\<lambda>example. snd example = 0)) (take num_batchs (chunks 6 ?d))"
    unfolding list_all_iff by blast
  with prep show ?thesis by (simp add: TripletLoss_call_def del: chunks.simps)
qed

subsection \<open>The triplet objective\<close>

text \<open>
  C2. For a batch of \<open>B \<ge> 1\<close> triples, with the one encoder applied to the anchors, the
  positives and the negatives, whatever the draws of the three calls, the loss of the
  model's output is the mean over the batch of \<open>max(d_pos - d_neg + margin, 0)\<close>, where
  \<open>d_pos\<close> and \<open>d_neg\<close> are the Euclidean norms of the differences of the embeddings of
  the example; the default margin is 1.
\<close>

theorem triplet_objective:
  assumes "length (encoder da anchor) = B" "length (encoder dp positive) = B"
    "length (encoder dn negative) = B" "0 < B"
  shows "TripletLoss_call self y_true (TripletSiamese encoder (da, dp, dn) anchor positive negative) =
     Inr (sum_list (map (\<lambda>i. max (l2_norm (map2 (-) (encoder da anchor ! i) (encoder dp positive ! i))
                                - l2_norm (map2 (-) (encoder da anchor ! i) (encoder dn negative ! i))
                                + margin self) 0) [0..<B]) / real B)
     \<and> margin (TripletLoss_init None) = 1"
proof -
  let ?pd = "map2 (\<lambda>x y. l2_norm (map2 (-) x y)) (encoder da anchor) (encoder dp positive)"
  let ?nd = "map2 (\<lambda>x y. l2_norm (map2 (-) x y)) (encoder da anchor) (encoder dn negative)"
  let ?f = "\<lambda>i. max (l2_norm (map2 (-) (encoder da anchor ! i) (encoder dp positive ! i))
                                - l2_norm (map2 (-) (encoder da anchor ! i) (encoder dn negative ! i))
                                + margin self) 0"
  have losses: "map relu (map (\<lambda>d. d + margin self) (map2 (-) ?pd ?nd)) = map ?f [0..<B]"
    using assms(1-3) by (intro nth_equalityI) (simp_all add: relu_def)
  have "TripletLoss_losses self (TripletSiamese encoder (da, dp, dn) anchor positive negative)
      = Inr (map ?f [0..<B])"
    using losses by (simp add: TripletLoss_losses_def TripletSiamese_rows)
  then show ?thesis
    using \<open>0 < B\<close> by (simp add: TripletLoss_call_def reduce_mean_def TripletLoss_init_def)
qed

theorem triplet_objective_witness:
  "TripletLoss_call (TripletLoss_init None) [0::int, 0]
     (TripletSiamese dropout_encoder ([True, True], [True, False], [True, True])
        [[0, 0], [1, 1]] [[1, 7], [1, 1]] [[0, 0], [0, 1]]) = Inr (3 / 2)"
  using triplet_objective [of dropout_encoder "[True, True]" "[[0, 0], [1, 1]]" 2
      "[True, False]" "[[1, 7], [1, 1]]" "[True, True]" "[[0, 0], [0, 1]]"
      "TripletLoss_init None" "[0::int, 0]"]
  by (simp add: dropout_encoder_def cast_def l2_norm_def TripletLoss_init_def upt_two)

text \<open>
  C9, as the code has it. When the positive inputs are the anchor inputs and the call of
  the encoder on the positives returns what its call on the anchors returns, as it does
  for every encoder that ignores the draw, every positive distance is 0 and the loss of
  each example is \<open>max(- d_neg + margin, 0)\<close>.
\<close>

theorem anchor_equals_positive:
  assumes "positive = anchor" "encoder dp anchor = encoder da anchor"
    "length (encoder dn negative) = length (encoder da anchor)"
  shows "\<exists>negative_dist.
     TripletSiamese encoder (da, dp, dn) anchor positive negative =
       [replicate (length (encoder da anchor)) 0, negative_dist]
     \<and> TripletLoss_losses self (TripletSiamese encoder (da, dp, dn) anchor positive negative) =
       Inr (map (\<lambda>d_neg. max (- d_neg + margin self) 0) negative_dist)"
proof -
  let ?pd = "map2 (\<lambda>x y. l2_norm (map2 (-) x y)) (encoder da anchor) (encoder da anchor)"
  let ?nd = "map2 (\<lambda>x y. l2_norm (map2 (-) x y)) (encoder da anchor) (encoder dn negative)"
  have pd: "?pd = replicate (length (encoder da anchor)) 0"
    by (intro nth_equalityI) (simp_all add: l2_norm_self)
  have "map relu (map (\<lambda>d. d + margin self) (map2 (-) (replicate (length (encoder da anchor)) 0) ?nd))
      = map (\<lambda>d_neg. max (- d_neg + margin self) 0) ?nd"
    using assms(3) by (intro nth_equalityI) (simp_all add: relu_def)
  then show ?thesis
    using pd assms(1,2) by (simp add: TripletSiamese_rows TripletLoss_losses_def)
qed

theorem anchor_equals_positive_witness:
  "dropout_encoder [True, False] [[3, 4], [1, 1]] = dropout_encoder [True, False] [[3, 4], [1, 1]]
   \<and> TripletSiamese dropout_encoder ([True, False], [True, False], [True, True])
        [[3, 4], [1, 1]] [[3, 4], [1, 1]] [[3, 0], [1, 1]] = [[0, 0], [0, 1]]
   \<and> TripletLoss_losses (TripletLoss_init None)
        (TripletSiamese dropout_encoder ([True, False], [True, False], [True, True])
           [[3, 4], [1, 1]] [[3, 4], [1, 1]] [[3, 0], [1, 1]]) = Inr [1, 0]"
  using anchor_equals_positive [of "[[3, 4], [1, 1]]" "[[3, 4], [1, 1]]" dropout_encoder
      "[True, False]" "[True, False]" "[True, True]" "[[3, 0], [1, 1]]" "TripletLoss_init None"]
  by (simp add: TripletLoss_init_def TripletSiamese_def TripletLoss_losses_def reduce_sum_def
      pow_def subtract_def relu_def dropout_encoder_def cast_def)

text \<open>
  C9 as written fails when the two calls of the encoder differ. With the encoder with
  dropout, the anchor call keeping both entries and the positive call dropping both, the
  identical anchor and positive \<open>(3, 4)\<close> are at distance 5, and the loss of the example
  is 6, not \<open>max(- d_neg + margin, 0) = 1\<close>.
\<close>

theorem anchor_equals_positive_dropout:
  "TripletSiamese dropout_encoder ([True, True], [False, False], [True, True])
     [[3, 4]] [[3, 4]] [[3, 4]] = [[5], [0]]
   \<and> TripletLoss_losses (TripletLoss_init None)
        (TripletSiamese dropout_encoder ([True, True], [False, False], [True, True])
           [[3, 4]] [[3, 4]] [[3, 4]]) = Inr [6]"
  by (simp add: TripletLoss_init_def TripletSiamese_def TripletLoss_losses_def reduce_sum_def
      pow_def subtract_def relu_def dropout_encoder_def cast_def sqrt_25)

subsection \<open>Mean pooling\<close>

lemma sum_cast: "sum_list (map cast msk) = real (length (filter id msk))"
  by (induction msk) (simp_all add: cast_def)

lemma sum_cast_zero: "sum_list (map cast msk) = 0 \<longleftrightarrow> True \<notin> set msk"
  by (auto simp: sum_cast filter_empty_conv)

lemma sum_cast_pos: "True \<in> set msk \<Longrightarrow> 0 < sum_list (map cast msk)"
  using sum_cast_zero[of msk] by (simp add: sum_cast)

lemma sum_masked:
  "sum_list (map (\<lambda>p. f (fst p) * cast (snd p)) ps) = sum_list (map (\<lambda>p. f (fst p)) (filter snd ps))"
  by (induction ps) (simp_all add: cast_def)

lemma length_unpadded:
  "length msk = length inputs \<Longrightarrow> length (unpadded inputs msk) = length (filter id msk)"
  unfolding unpadded_def
  by (induction msk inputs rule: list_induct2) simp_all

text \<open>
  C3. A sentence whose mask has no true position is rejected by the pooling layer, and
  only such a sentence is; the layer never returns the quotient \<open>0 / 0\<close>, and whenever it
  returns an embedding the divisor was not 0. With at least one true position the
  divisor is positive, the rejecting branch is not taken and pooling returns an
  embedding. The encoder is the pooling layer applied to the hidden states and the mask
  of the sentence, so the same holds of the encoder.
\<close>

theorem mean_pooling_division:
  "(pooling_layer inputs msk = Inl Rejected) = (True \<notin> set msk)
   \<and> pooling_layer inputs msk \<noteq> Inl NotANumber
   \<and> (\<forall>embedding. pooling_layer inputs msk = Inr embedding \<longrightarrow> sum_list (map cast msk) \<noteq> 0)
   \<and> (True \<in> set msk \<longrightarrow>
        0 < sum_list (map cast msk) \<and> (\<exists>embedding. pooling_layer inputs msk = Inr embedding))
   \<and> roberta_encoder preprocessor backbone sentence =
        pooling_layer (backbone (preprocessor sentence)) (padding_mask (preprocessor sentence))"
  by (auto simp: roberta_encoder_def pooling_layer_def Let_def sum_cast_zero sum_cast_pos)

theorem mean_pooling_division_witness:
  "True \<in> set [True, False]
   \<and> roberta_encoder (\<lambda>s. \<lparr>token_ids = [7::nat, 0], padding_mask = [True, False]\<rparr>)
        (\<lambda>x. [[1, 2], [3, 4]]) ''a'' = Inr [1, 2]
   \<and> pooling_layer [[1, 2], [3, 4]] [False, False] = Inl Rejected"
  using mean_pooling_division [of "[[1, 2], [3, 4]]" "[True, False]"
      "\<lambda>s. \<lparr>token_ids = [7::nat, 0], padding_mask = [True, False]\<rparr>" "\<lambda>x. [[1, 2], [3, 4]]" "''a''"]
  by (simp add: pooling_layer_def cast_def)

lemma pooling_layer_columns:
  assumes len: "length msk = length inputs"
    and rect: "\<forall>row\<in>set inputs. length row = D"
    and some: "True \<in> set msk"
  shows "pooling_layer inputs msk =
     Inr (map (\<lambda>j. sum_list (map (\<lambda>p. fst p ! j * cast (snd p)) (zip inputs msk))
                    / real (length (filter id msk))) [0..<D])"
proof -
  let ?masked = "map2 (\<lambda>row mi. map (\<lambda>x. x * mi) row) inputs (map cast msk)"
  have ne: "?masked \<noteq> []" using some len by auto
  have rows: "length (?masked ! i) = D" if "i < length ?masked" for i
    using that len rect by simp
  have tr: "transpose ?masked = map (\<lambda>j. map (\<lambda>i. ?masked ! i ! j) [0..<length ?masked]) [0..<D]"
    by (rule transpose_rectangle) (use ne rows in simp_all)
  have col: "map (\<lambda>i. ?masked ! i ! j) [0..<length ?masked]
      = map (\<lambda>p. fst p ! j * cast (snd p)) (zip inputs msk)" if "j < D" for j
    using that len rect by (intro nth_equalityI) simp_all
  have "map (\<lambda>col. sum_list col / sum_list (map cast msk)) (transpose ?masked)
      = map (\<lambda>j. sum_list (map (\<lambda>p. fst p ! j * cast (snd p)) (zip inputs msk))
                    / real (length (filter id msk))) [0..<D]"
    unfolding tr by (simp add: col sum_cast comp_def del: length_map)
  moreover have "sum_list (map cast msk) \<noteq> 0" using some by (simp add: sum_cast_zero)
  ultimately show ?thesis by (simp add: pooling_layer_def Let_def)
qed

lemma arithmetic_mean_unpadded:
  assumes len: "length msk = length inputs"
    and rect: "\<forall>row\<in>set inputs. length row = D"
    and some: "True \<in> set msk"
  shows "arithmetic_mean (unpadded inputs msk) =
     map (\<lambda>j. sum_list (map (\<lambda>p. fst p ! j) (filter snd (zip inputs msk)))
                    / real (length (filter id msk))) [0..<D]"
proof -
  have k: "length (unpadded inputs msk) = length (filter id msk)"
    using len by (rule length_unpadded)
  have "filter id msk \<noteq> []" using some by (auto simp: filter_empty_conv)
  with k obtain v vs where vs: "unpadded inputs msk = v # vs"
    by (cases "unpadded inputs msk") auto
  then have "v \<in> set (unpadded inputs msk)" by simp
  then have "v \<in> set inputs" by (auto simp: unpadded_def dest: set_zip_leftD)
  with rect have v: "length v = D" by simp
  have "arithmetic_mean (unpadded inputs msk) =
      map (\<lambda>j. sum_list (map (\<lambda>w. w ! j) (unpadded inputs msk))
                    / real (length (unpadded inputs msk))) [0..<length v]"
    unfolding vs by (simp only: arithmetic_mean_def list.case)
  then show ?thesis
    unfolding k v by (simp add: unpadded_def comp_def)
qed

text \<open>
  C4. For hidden states of shape \<open>(n, D)\<close>, a mask of length \<open>n\<close> and at least one true
  position, the pooled embedding is the arithmetic mean of the \<open>k\<close> token vectors at the
  true positions, \<open>k\<close> being the number of true positions; hidden states of the same
  shape that differ only at false positions give the same pooled result.
\<close>

theorem mean_pooling_is_mean_of_unpadded:
  assumes len: "length msk = length inputs"
    and rect: "\<forall>row\<in>set inputs. length row = D"
    and some: "True \<in> set msk"
    and len': "length inputs' = length inputs"
    and same: "\<forall>i<length inputs. length (inputs' ! i) = D \<and> (msk ! i \<longrightarrow> inputs' ! i = inputs ! i)"
  shows "pooling_layer inputs msk = Inr (arithmetic_mean (unpadded inputs msk))
     \<and> length (unpadded inputs msk) = length (filter id msk)
     \<and> pooling_layer inputs' msk = pooling_layer inputs msk"
proof -
  have mean: "pooling_layer inputs msk = Inr (arithmetic_mean (unpadded inputs msk))"
    by (simp add: pooling_layer_columns[OF len rect some] arithmetic_mean_unpadded[OF len rect some]
        sum_masked[of "\<lambda>row. row ! j" for j])
  have "map2 (\<lambda>row mi. map (\<lambda>x. x * mi) row) inputs' (map cast msk)
      = map2 (\<lambda>row mi. map (\<lambda>x. x * mi) row) inputs (map cast msk)"
  proof (rule nth_equalityI)
    show "length (map2 (\<lambda>row mi. map (\<lambda>x. x * mi) row) inputs' (map cast msk))
        = length (map2 (\<lambda>row mi. map (\<lambda>x. x * mi) row) inputs (map cast msk))"
      using len' by simp
  next
    fix i assume "i < length (map2 (\<lambda>row mi. map (\<lambda>x. x * mi) row) inputs' (map cast msk))"
    then have i: "i < length inputs" using len len' by simp
    then have li: "length (inputs ! i) = D" using rect by simp
    from i same have li': "length (inputs' ! i) = D" by simp
    show "map2 (\<lambda>row mi. map (\<lambda>x. x * mi) row) inputs' (map cast msk) ! i
        = map2 (\<lambda>row mi. map (\<lambda>x. x * mi) row) inputs (map cast msk) ! i"
    proof (cases "msk ! i")
      case True
      with i same have "inputs' ! i = inputs ! i" by simp
      then show ?thesis using i len len' by simp
    next
      case False
      then show ?thesis using i len len' li li'
        by (simp add: cast_def map_replicate_const)
    qed
  qed
  then have "pooling_layer inputs' msk = pooling_layer inputs msk"
    by (simp add: pooling_layer_def Let_def)
  with mean show ?thesis using length_unpadded[OF len] by simp
qed

theorem mean_pooling_is_mean_of_unpadded_witness:
  "pooling_layer [[1, 2], [9, 9], [3, 6]] [True, False, True] = Inr [2, 4]
   \<and> arithmetic_mean (unpadded [[1, 2], [9, 9], [3, 6]] [True, False, True]) = [2, 4]
   \<and> pooling_layer [[1, 2], [-5, 70], [3, 6]] [True, False, True] = Inr [2, 4]"
proof -
  have h1: "\<forall>row\<in>set [[1, 2], [9, 9], [3::real, 6]]. length row = 2" by simp
  have h2: "\<forall>i<length [[1, 2], [9, 9], [3::real, 6]].
      length ([[1, 2], [-5, 70], [3::real, 6]] ! i) = 2
      \<and> ([True, False, True] ! i \<longrightarrow> [[1, 2], [-5, 70], [3::real, 6]] ! i = [[1, 2], [9, 9], [3, 6]] ! i)"
    by (auto simp: less_Suc_eq)
  have "pooling_layer [[1, 2], [9, 9], [3, 6]] [True, False, True]
        = Inr (arithmetic_mean (unpadded [[1, 2], [9, 9], [3, 6]] [True, False, True]))
     \<and> length (unpadded [[1, 2], [9, 9], [3, 6]] [True, False, True]) = length (filter id [True, False, True])
     \<and> pooling_layer [[1, 2], [-5, 70], [3, 6]] [True, False, True]
        = pooling_layer [[1, 2], [9, 9], [3, 6]] [True, False, True]"
    by (rule mean_pooling_is_mean_of_unpadded [where D=2, OF _ h1 _ _ h2]) simp_all
  moreover have "arithmetic_mean (unpadded [[1, 2], [9, 9], [3, 6]] [True, False, True]) = [2, 4]"
    by (simp add: arithmetic_mean_def unpadded_def upt_two)
  ultimately show ?thesis by simp
qed

subsection \<open>Normalisation\<close>

lemma sum_squares_nonneg: "0 \<le> sum_list (map (\<lambda>xi. xi * xi) (x::real list))"
  by (induction x) simp_all

lemma sum_squares_pos: "\<exists>xi\<in>set x. xi \<noteq> 0 \<Longrightarrow> 0 < sum_list (map (\<lambda>xi. xi * xi) (x::real list))"
proof (induction x)
  case Nil
  then show ?case by simp
next
  case (Cons a x)
  show ?case
  proof (cases "a = 0")
    case True
    with Cons show ?thesis by simp
  next
    case False
    then have "0 < a * a" by (auto simp: zero_less_mult_iff)
    with sum_squares_nonneg[of x] show ?thesis by simp
  qed
qed

lemma l2_norm_pos: "\<exists>xi\<in>set x. xi \<noteq> 0 \<Longrightarrow> 0 < l2_norm x"
  by (simp add: l2_norm_def sum_squares_pos)

lemma l2_norm_scaled: "0 \<le> c \<Longrightarrow> l2_norm (map (\<lambda>xi. c * xi) x) = c * l2_norm x"
proof -
  assume c: "0 \<le> c"
  have "sum_list (map (\<lambda>xi. (c * xi) * (c * xi)) x) = (c * c) * sum_list (map (\<lambda>xi. xi * xi) x)"
    by (induction x) (simp_all add: algebra_simps)
  then show ?thesis
    using c by (simp add: l2_norm_def comp_def real_sqrt_mult)
qed

lemma dot_scaled: "dot (map (\<lambda>xi. c * xi) x) (map (\<lambda>yi. d * yi) y) = c * d * dot x y"
proof -
  have "sum_list (map2 (*) (map (\<lambda>xi. c * xi) x) (map (\<lambda>yi. d * yi) y))
      = c * d * sum_list (map2 (*) x y)"
  proof (induction x arbitrary: y)
    case Nil
    then show ?case by simp
  next
    case (Cons a x)
    then show ?case by (cases y) (simp_all add: algebra_simps)
  qed
  then show ?thesis by (simp add: dot_def)
qed

lemma linalg_normalize_scaled:
  "\<exists>xi\<in>set x. xi \<noteq> 0 \<Longrightarrow> linalg_normalize x = Inr (map (\<lambda>xi. (1 / l2_norm x) * xi) x)"
  using l2_norm_pos[of x] by (simp add: linalg_normalize_def Let_def)

text \<open>
  C8. For vectors \<open>x\<close> and \<open>y\<close> with a nonzero entry, normalisation returns vectors \<open>u\<close>
  and \<open>v\<close>; \<open>u\<close> has Euclidean norm 1 and is \<open>x\<close> scaled by a positive number, and the
  inner product of \<open>u\<close> and \<open>v\<close> is the cosine similarity of \<open>x\<close> and \<open>y\<close>. The
  regression encoder applies this normalisation to the pooled embedding.
\<close>

theorem normalize_unit_norm:
  assumes x: "\<exists>xi\<in>set x. xi \<noteq> 0" and y: "\<exists>yi\<in>set y. yi \<noteq> 0"
  shows "(\<exists>u v. linalg_normalize x = Inr u \<and> linalg_normalize y = Inr v
     \<and> l2_norm u = 1
     \<and> (\<exists>c>0. u = map (\<lambda>xi. c * xi) x)
     \<and> dot u v = dot x y / (l2_norm x * l2_norm y))
     \<and> roberta_normal_encoder preprocessor backbone sentence =
         (case roberta_encoder preprocessor backbone sentence of
            Inl e \<Rightarrow> Inl e
          | Inr embedding \<Rightarrow> linalg_normalize embedding)"
proof -
  let ?c = "1 / l2_norm x" and ?d = "1 / l2_norm y"
  let ?u = "map (\<lambda>xi. ?c * xi) x" and ?v = "map (\<lambda>yi. ?d * yi) y"
  have c: "0 < ?c" and d: "0 < ?d" using l2_norm_pos[OF x] l2_norm_pos[OF y] by simp_all
  have "l2_norm ?u = ?c * l2_norm x" using c by (intro l2_norm_scaled) simp
  then have unit: "l2_norm ?u = 1" using l2_norm_pos[OF x] by simp
  have "dot ?u ?v = dot x y / (l2_norm x * l2_norm y)"
    using dot_scaled[of ?c x ?d y] by simp
  with unit c linalg_normalize_scaled[OF x] linalg_normalize_scaled[OF y]
  have "\<exists>u v. linalg_normalize x = Inr u \<and> linalg_normalize y = Inr v
     \<and> l2_norm u = 1
     \<and> (\<exists>c>0. u = map (\<lambda>xi. c * xi) x)
     \<and> dot u v = dot x y / (l2_norm x * l2_norm y)"
    by blast
  then show ?thesis
    by (simp add: roberta_normal_encoder_def roberta_encoder_def Let_def)
qed

theorem normalize_unit_norm_witness:
  "linalg_normalize [3, 4] = Inr [3 / 5, 4 / 5] \<and> linalg_normalize [4, 3] = Inr [4 / 5, 3 / 5]
   \<and> l2_norm [3 / 5, 4 / 5] = 1 \<and> dot [3 / 5, 4 / 5] [4 / 5, 3 / 5] = 24 / 25"
proof -
  have x: "\<exists>xi\<in>set [3::real, 4]. xi \<noteq> 0" and y: "\<exists>yi\<in>set [4::real, 3]. yi \<noteq> 0" by simp_all
  have nx: "linalg_normalize [3, 4] = Inr [3 / 5, 4 / 5]"
    and ny: "linalg_normalize [4, 3] = Inr [4 / 5, 3 / 5]"
    by (simp_all add: linalg_normalize_def l2_norm_def sqrt_25)
  from normalize_unit_norm [OF x y] nx ny show ?thesis
    by (simp add: l2_norm_def dot_def sqrt_25)
qed

subsection \<open>The regression objective\<close>

text \<open>
  What the model computes on embeddings of shape \<open>(B, D)\<close>: the matrix of the inner
  products of every row of \<open>u\<close> with every row of \<open>v\<close>, of shape \<open>(B, B)\<close>. The inner
  product of an example's own two embeddings is the entry on the diagonal.
\<close>

lemma matmul_transpose_rect:
  assumes v: "\<forall>row\<in>set v. length row = D" and D: "0 < D"
  shows "matmul u (transpose v) = map (\<lambda>row. map (\<lambda>col. dot row col) v) u"
proof -
  have "map length v = replicate (length v) D"
    using v by (intro nth_equalityI) simp_all
  then have "sorted (rev (map length v))" by simp
  then have "transpose (transpose v) = takeWhile (\<lambda>x. x \<noteq> []) v"
    by (rule transpose_transpose)
  also have "\<dots> = v"
    using v D by (intro takeWhile_eq_all_conv[THEN iffD2]) auto
  finally show ?thesis by (simp add: matmul_def)
qed

lemma RegressionSiamese_entries:
  assumes "\<forall>row\<in>set (encoder (map snd inputs)). length row = D" and "0 < D"
  shows "RegressionSiamese encoder inputs =
     map (\<lambda>ui. map (\<lambda>vj. dot ui vj) (encoder (map snd inputs))) (encoder (map fst inputs))"
  using matmul_transpose_rect[OF assms]
  by (simp add: RegressionSiamese_def split_def Let_def)

lemma dot_commute: "dot a b = dot b a"
proof -
  have "sum_list (map2 (*) a b) = sum_list (map2 (*) b a)"
  proof (induction a arbitrary: b)
    case Nil
    then show ?case by simp
  next
    case (Cons x a)
    then show ?case by (cases b) simp_all
  qed
  then show ?thesis by (simp add: dot_def)
qed

text \<open>
  On a batch of one pair the output is the single inner product, and swapping the two
  sentences of the pair leaves it unchanged.
\<close>

lemma RegressionSiamese_single_pair:
  assumes "encoder [a] = [u]" "encoder [b] = [v]" "u \<noteq> []" "v \<noteq> []"
  shows "RegressionSiamese encoder [(a, b)] = [[dot u v]]"
    and "RegressionSiamese encoder [(b, a)] = RegressionSiamese encoder [(a, b)]"
proof -
  have ab: "RegressionSiamese encoder [(a, b)] = [[dot u v]]"
    using assms RegressionSiamese_entries[of encoder "[(a, b)]" "length v"] by simp
  have "RegressionSiamese encoder [(b, a)] = [[dot v u]]"
    using assms RegressionSiamese_entries[of encoder "[(b, a)]" "length u"] by simp
  with ab show "RegressionSiamese encoder [(a, b)] = [[dot u v]]"
    and "RegressionSiamese encoder [(b, a)] = RegressionSiamese encoder [(a, b)]"
    by (simp_all add: dot_commute)
qed

text \<open>
  C1, evaluated on a batch of two pairs. The encoder maps the sentence \<open>a\<close> to the unit
  vector \<open>(1, 0)\<close> and any other sentence to \<open>(0, 1)\<close>. The output has two rows of two
  numbers: row \<open>i\<close> holds the inner products of the first sentence of pair \<open>i\<close> with the
  second sentence of every pair of the batch, not one number per pair.
\<close>

theorem regression_output_is_cross_matrix:
  "RegressionSiamese (map (\<lambda>s. if s = ''a'' then [1, 0] else [0, 1]))
     [(''a'', ''a''), (''b'', ''a'')] = [[1, 1], [0, 0]]"
  by (simp add: RegressionSiamese_def split_def matmul_def dot_def)

text \<open>
  C6, evaluated on the same batch and on the batch with the two sentences of every pair
  swapped: the two outputs differ (each is the transpose of the other).
\<close>

theorem regression_swap_changes_output:
  "RegressionSiamese (map (\<lambda>s. if s = ''a'' then [1, 0] else [0, 1]))
     [(''a'', ''a''), (''a'', ''b'')] = [[1, 0], [1, 0]]
   \<and> RegressionSiamese (map (\<lambda>s. if s = ''a'' then [1, 0] else [0, 1]))
     [(''a'', ''a''), (''b'', ''a'')] \<noteq>
     RegressionSiamese (map (\<lambda>s. if s = ''a'' then [1, 0] else [0, 1]))
     [(''a'', ''a''), (''a'', ''b'')]"
  by (simp add: RegressionSiamese_def split_def matmul_def dot_def)

end
